theory Spec2Isabelle
  imports Main
begin

section \<open>The metadata resolver of the info extractor\<close>

text \<open>
  A shallow embedding of the info extractor module: \<open>getCachedVideo\<close>, \<open>updateCache\<close>,
  \<open>getServiceAdapter\<close>, \<open>getServiceAdapterForURL\<close>, \<open>getVideoInfo\<close>,
  \<open>resolveVideoQuery\<close> and \<open>searchVideos\<close>. The module's collaborators (the service
  adapters, the storage module, the \<open>Video\<close> class and Node's \<open>url\<close> module) are
  required from other files; the adapters and the storage schema are parameters of the
  model, and the two pieces whose behaviour the properties need (\<open>Video.merge\<close> and the
  storage upsert) are modelled from the specification and marked so.

  An \<open>async\<close> function is modelled by the value its promise settles to: \<open>Inl e\<close> when
  it rejects with \<open>e\<close>, \<open>Inr v\<close> when it fulfils with \<open>v\<close>. Effects on the cache store
  and the calls made on adapters are recorded in an explicit state.
\<close>

subsection \<open>Values, video records, errors\<close>

datatype jsval = JNull | JStr string | JNum int

text \<open>JavaScript truthiness of an attribute value, as \<open>video.mime && ...\<close> tests it.\<close>

fun truthy :: "jsval \<Rightarrow> bool" where
  "truthy JNull = False"
| "truthy (JStr s) = (s \<noteq> [])"
| "truthy (JNum n) = (n \<noteq> 0)"

text \<open>
  A video record: its identity \<open>(service, id)\<close> and the own properties that carry
  metadata (title, description, thumbnail, length, mime, ...). Only the properties that
  are present are in \<open>attrs\<close>.
\<close>

record video =
  service :: string
  videoId :: string
  attrs :: "string \<rightharpoonup> jsval"

text \<open>\<open>video.hasOwnProperty(p)\<close>: the identity properties are always present.\<close>

definition hasOwnProperty :: "video \<Rightarrow> string \<Rightarrow> bool" where
  "hasOwnProperty v p = (p = ''service'' \<or> p = ''id'' \<or> attrs v p \<noteq> None)"

text \<open>
  The errors the module can see. \<open>TypeError\<close> is what JavaScript raises when a property
  of \<open>undefined\<close> is read or when a value that is not a function is called.
\<close>

datatype exn =
    TypeError
  | UnsupportedMimeTypeException jsval
  | OutOfQuotaException
  | OtherError string

subsection \<open>Service adapters\<close>

text \<open>
  What a call of \<open>adapter.fetchVideoInfo\<close> hands back when it returns: a video record, or
  a promise that will later fulfil with a record or reject with an error. The call itself
  may also throw (\<open>Inl\<close> in the field \<open>fetchVideoInfo\<close> below).
\<close>

datatype fetched = Record video | Promise "exn + video"

text \<open>
  The capability set of an adapter. \<open>resolveURL\<close> and \<open>adapter_searchVideos\<close> are
  awaited by the module, so they are given by what their promise settles to.
  \<open>fetchVideoInfo\<close> is called without \<open>await\<close>, so it is given by the outcome of the
  call itself.
\<close>

record adapter =
  serviceId :: string
  canHandleLink :: "string \<Rightarrow> bool"
  isCollectionURL :: "string \<Rightarrow> bool"
  getVideoId :: "string \<Rightarrow> string"
  resolveURL :: "string \<Rightarrow> exn + video list"
  fetchVideoInfo :: "string \<Rightarrow> string list \<Rightarrow> exn + fetched"
  adapter_searchVideos :: "string \<Rightarrow> exn + video list"

subsection \<open>Environment and state\<close>

text \<open>
  The environment: the configured adapter list, the test \<open>URL.parse(str).host != null\<close>
  of Node's \<open>url\<close> module, the storage schema \<open>storage.getVideoInfoFields\<close>, and the
  error (if any) with which a storage read of a key fails.
\<close>

record env =
  adapters :: "adapter list"
  url_host_present :: "string \<Rightarrow> bool"
  storage_getVideoInfoFields :: "string \<Rightarrow> string list"
  storage_read_error :: "string \<Rightarrow> string \<Rightarrow> exn option"

datatype event =
    AdapterFetchVideoInfo string string "string list"
  | AdapterResolveURL string string
  | AdapterSearchVideos string string
  | StorageUpdateVideoInfo video
  | StorageUpdateManyVideoInfo "video list"

text \<open>
  The state: the cache store, keyed by \<open>(service, id)\<close>, and the trace of the network
  calls made on adapters and of the writes issued to the store, oldest first.
\<close>

record state =
  cache :: "(string \<times> string) \<rightharpoonup> video"
  trace :: "event list"

definition emit :: "event \<Rightarrow> state \<Rightarrow> state" where
  "emit e st = st\<lparr>trace := trace st @ [e]\<rparr>"

fun is_adapter_call :: "event \<Rightarrow> bool" where
  "is_adapter_call (AdapterFetchVideoInfo s i fs) = True"
| "is_adapter_call (AdapterResolveURL s u) = True"
| "is_adapter_call (AdapterSearchVideos s q) = True"
| "is_adapter_call (StorageUpdateVideoInfo v) = False"
| "is_adapter_call (StorageUpdateManyVideoInfo vs) = False"

fun is_cache_write :: "event \<Rightarrow> bool" where
  "is_cache_write (StorageUpdateVideoInfo v) = True"
| "is_cache_write (StorageUpdateManyVideoInfo vs) = True"
| "is_cache_write (AdapterFetchVideoInfo s i fs) = False"
| "is_cache_write (AdapterResolveURL s u) = False"
| "is_cache_write (AdapterSearchVideos s q) = False"

subsection \<open>The storage module\<close>

text \<open>
  Modelled from the spec: \<open>storage.getVideoInfo\<close> (the storage module is not part of the
  sources). A read of a key that is not cached is not an error: it yields the record that
  has the identity and no metadata. A read fails only with the environment's error.
\<close>

definition storage_getVideoInfo :: "env \<Rightarrow> state \<Rightarrow> string \<Rightarrow> string \<Rightarrow> exn + video" where
  "storage_getVideoInfo E st svc vid =
     (case storage_read_error E svc vid of
        Some e \<Rightarrow> Inl e
      | None \<Rightarrow>
          (case cache st (svc, vid) of
             Some v \<Rightarrow> Inr v
           | None \<Rightarrow> Inr \<lparr>service = svc, videoId = vid, attrs = Map.empty\<rparr>))"

text \<open>
  Modelled from the spec: the upsert behind \<open>storage.updateVideoInfo\<close> and
  \<open>storage.updateManyVideoInfo\<close>. It creates the entry of the record's key or updates
  the properties the record carries; it never deletes.
\<close>

definition upsert :: "video \<Rightarrow> ((string \<times> string) \<rightharpoonup> video) \<Rightarrow> ((string \<times> string) \<rightharpoonup> video)" where
  "upsert v c =
     c((service v, videoId v) \<mapsto>
         (case c (service v, videoId v) of
            None \<Rightarrow> v
          | Some old \<Rightarrow> v\<lparr>attrs := attrs old ++ attrs v\<rparr>))"

definition storage_updateVideoInfo :: "video \<Rightarrow> state \<Rightarrow> state" where
  "storage_updateVideoInfo v st =
     emit (StorageUpdateVideoInfo v) (st\<lparr>cache := upsert v (cache st)\<rparr>)"

definition storage_updateManyVideoInfo :: "video list \<Rightarrow> state \<Rightarrow> state" where
  "storage_updateManyVideoInfo vs st =
     emit (StorageUpdateManyVideoInfo vs) (st\<lparr>cache := fold upsert vs (cache st)\<rparr>)"

subsection \<open>The Video class\<close>

text \<open>
  \<open>new Video(result)\<close> builds the record from what the storage read returned; the record
  type above is already that normalised shape.
\<close>

definition Video :: "video \<Rightarrow> video" where
  "Video result = result"

text \<open>
  Modelled from the spec: \<open>Video.merge\<close> (the Video class is not part of the sources). The
  merge is right-biased: a property present on the newer argument overwrites the older
  one, a property absent from it falls back to the older one. A promise object carries
  none of a video's properties, so merging one over a record leaves every property of the
  record as it was.
\<close>

fun Video_merge :: "video \<Rightarrow> fetched \<Rightarrow> video" where
  "Video_merge a (Record b) =
     \<lparr>service = service b, videoId = videoId b, attrs = attrs a ++ attrs b\<rparr>"
| "Video_merge a (Promise p) = a"

subsection \<open>The module's functions\<close>

text \<open>\<open>isURL(str)\<close>: \<open>URL.parse(str).host != null\<close>.\<close>

definition isURL :: "env \<Rightarrow> string \<Rightarrow> bool" where
  "isURL E str = url_host_present E str"

text \<open>
  The receiver \<open>this\<close> of a call of \<open>getCachedVideo\<close>, reduced to the one property the
  function reads from it: its method \<open>isSupportedMimeType\<close>, if it has one.
\<close>

type_synonym receiver = "(jsval \<Rightarrow> bool) option"

text \<open>
  \<open>getVideoInfo\<close> calls \<open>getCachedVideo(service, videoId)\<close> as a plain function, so
  \<open>this\<close> is the global object (or \<open>undefined\<close> in strict mode). The module defines no
  \<open>isSupportedMimeType\<close> anywhere, and exports none: the receiver has no such method.
\<close>

definition plain_call_receiver :: receiver where
  "plain_call_receiver = None"

text \<open>
  \<open>getCachedVideo\<close>. Every error raised in its \<open>try\<close> block is logged and thrown again
  by the \<open>catch\<close>, so it reaches the caller as it is. Calling \<open>this.isSupportedMimeType\<close>
  on a receiver that has no such method raises \<open>TypeError\<close>.
\<close>

definition getCachedVideo ::
  "receiver \<Rightarrow> env \<Rightarrow> state \<Rightarrow> string \<Rightarrow> string \<Rightarrow> exn + (video \<times> string list)" where
  "getCachedVideo this E st svc vid =
     (case storage_getVideoInfo E st svc vid of
        Inl e \<Rightarrow> Inl e
      | Inr result \<Rightarrow>
          (let video = Video result;
               missingInfo = filter (\<lambda>p. \<not> hasOwnProperty video p)
                               (storage_getVideoInfoFields E (service video))
           in case attrs video ''mime'' of
                None \<Rightarrow> Inr (video, missingInfo)
              | Some mime \<Rightarrow>
                  if truthy mime then
                    (case this of
                       None \<Rightarrow> Inl TypeError
                     | Some isSupportedMimeType \<Rightarrow>
                         if isSupportedMimeType mime then Inr (video, missingInfo)
                         else Inl (UnsupportedMimeTypeException mime))
                  else Inr (video, missingInfo)))"

text \<open>
  \<open>updateCache(videos)\<close>: \<open>Array.isArray\<close> decides between the batch write and the
  single write. The write is issued when \<open>updateCache\<close> is called; no caller awaits it.
\<close>

datatype videos_arg = One video | Many "video list"

fun updateCache :: "videos_arg \<Rightarrow> state \<Rightarrow> state" where
  "updateCache (Many videos) st = storage_updateManyVideoInfo videos st"
| "updateCache (One videos) st = storage_updateVideoInfo videos st"

definition getServiceAdapter :: "env \<Rightarrow> string \<Rightarrow> adapter option" where
  "getServiceAdapter E svc = List.find (\<lambda>a. serviceId a = svc) (adapters E)"

definition getServiceAdapterForURL :: "env \<Rightarrow> string \<Rightarrow> adapter option" where
  "getServiceAdapterForURL E url = List.find (\<lambda>a. canHandleLink a url) (adapters E)"

text \<open>
  The test \<open>missingInfo === 0\<close> of \<open>getVideoInfo\<close>. \<open>missingInfo\<close> is the array that
  \<open>filter\<close> returned, and strict equality of an array object and the number \<open>0\<close> is
  false whatever the array holds.
\<close>

definition strict_equals_zero :: "string list \<Rightarrow> bool" where
  "strict_equals_zero missingInfo = False"

text \<open>The \<open>catch\<close> block of \<open>getVideoInfo\<close>: what the function settles to on error \<open>e\<close>.\<close>

definition getVideoInfo_catch :: "env \<Rightarrow> video \<Rightarrow> string list \<Rightarrow> exn \<Rightarrow> exn + video" where
  "getVideoInfo_catch E cachedVideo missingInfo e =
     (if e = OutOfQuotaException then
        (if length missingInfo < length (storage_getVideoInfoFields E (service cachedVideo))
         then Inr cachedVideo
         else Inl e)
      else Inl e)"

text \<open>
  \<open>getVideoInfo\<close>. The adapter is looked up first and may be \<open>undefined\<close>; reading
  \<open>adapter.fetchVideoInfo\<close> then raises \<open>TypeError\<close> inside the \<open>try\<close>. The result of
  \<open>adapter.fetchVideoInfo\<close> is not awaited: whatever the call returns goes to
  \<open>Video.merge\<close>, and only an error thrown by the call itself reaches the \<open>catch\<close>.
\<close>

definition getVideoInfo :: "env \<Rightarrow> state \<Rightarrow> string \<Rightarrow> string \<Rightarrow> (exn + video) \<times> state" where
  "getVideoInfo E st svc vid =
     (let adapter = getServiceAdapter E svc
      in case getCachedVideo plain_call_receiver E st svc vid of
           Inl e \<Rightarrow> (Inl e, st)
         | Inr (cachedVideo, missingInfo) \<Rightarrow>
             if strict_equals_zero missingInfo then (Inr cachedVideo, st)
             else
               (case adapter of
                  None \<Rightarrow> (getVideoInfo_catch E cachedVideo missingInfo TypeError, st)
                | Some a \<Rightarrow>
                    (let st1 = emit (AdapterFetchVideoInfo (serviceId a)
                                       (videoId cachedVideo) missingInfo) st
                     in case fetchVideoInfo a (videoId cachedVideo) missingInfo of
                          Inl e \<Rightarrow> (getVideoInfo_catch E cachedVideo missingInfo e, st1)
                        | Inr fetchedVideo \<Rightarrow>
                            (let video = Video_merge cachedVideo fetchedVideo
                             in (Inr video, updateCache (One video) st1)))))"

text \<open>
  \<open>searchVideos(service, query)\<close>: a missing adapter makes \<open>adapter.searchVideos\<close> raise
  \<open>TypeError\<close>.
\<close>

definition searchVideos :: "env \<Rightarrow> state \<Rightarrow> string \<Rightarrow> string \<Rightarrow> (exn + video list) \<times> state" where
  "searchVideos E st svc query =
     (case getServiceAdapter E svc of
        None \<Rightarrow> (Inl TypeError, st)
      | Some a \<Rightarrow> (adapter_searchVideos a query, emit (AdapterSearchVideos (serviceId a) query) st))"

text \<open>
  \<open>resolveVideoQuery\<close> returns one record (the single-item branch) or the array
  \<open>results\<close> (the collection and search branches).
\<close>

datatype reply = Single video | Batch "video list"

definition resolveVideoQuery :: "env \<Rightarrow> state \<Rightarrow> string \<Rightarrow> string \<Rightarrow> (exn + reply) \<times> state" where
  "resolveVideoQuery E st query searchService =
     (if isURL E query then
        (case getServiceAdapterForURL E query of
           None \<Rightarrow> (Inl TypeError, st)
         | Some a \<Rightarrow>
             if \<not> isCollectionURL a query then
               (case getVideoInfo E st (serviceId a) (getVideoId a query) of
                  (Inl e, st') \<Rightarrow> (Inl e, st')
                | (Inr v, st') \<Rightarrow> (Inr (Single v), st'))
             else
               (let st1 = emit (AdapterResolveURL (serviceId a) query) st
                in case resolveURL a query of
                     Inl e \<Rightarrow> (Inl e, st1)
                   | Inr fetchResults \<Rightarrow>
                       (let results = [] @ fetchResults
                        in (Inr (Batch results), updateCache (Many results) st1))))
      else
        (case searchVideos E st searchService query of
           (Inl e, st1) \<Rightarrow> (Inl e, st1)
         | (Inr searchResults, st1) \<Rightarrow>
             (let results = [] @ searchResults
              in (Inr (Batch results), updateCache (Many results) st1))))"


subsection \<open>Replies that have been written back\<close>

text \<open>
  A reply has been written back when the last event of the trace is the write of exactly
  that reply: \<open>updateVideoInfo\<close> of the record, or \<open>updateManyVideoInfo\<close> of the batch.
\<close>

definition written_back :: "reply \<Rightarrow> state \<Rightarrow> bool" where
  "written_back r st =
     (case r of
        Single v \<Rightarrow> trace st \<noteq> [] \<and> last (trace st) = StorageUpdateVideoInfo v
      | Batch vs \<Rightarrow> trace st \<noteq> [] \<and> last (trace st) = StorageUpdateManyVideoInfo vs)"

subsection \<open>A concrete configuration\<close>

text \<open>
  One service, \<open>youtube\<close>, whose schema declares \<open>title\<close> and \<open>description\<close>; records
  of the video \<open>abc\<close> with none, one and both of them; and an adapter that is a parameter
  in its \<open>fetchVideoInfo\<close>.
\<close>

definition yt_schema :: "string \<Rightarrow> string list" where
  "yt_schema svc = [''title'', ''description'']"

definition bare_video :: video where
  "bare_video = \<lparr>service = ''youtube'', videoId = ''abc'', attrs = Map.empty\<rparr>"

definition partial_video :: video where
  "partial_video =
     \<lparr>service = ''youtube'', videoId = ''abc'', attrs = [''title'' \<mapsto> JStr ''Song'']\<rparr>"

definition complete_video :: video where
  "complete_video =
     \<lparr>service = ''youtube'', videoId = ''abc'',
      attrs = [''title'' \<mapsto> JStr ''Song'', ''description'' \<mapsto> JStr ''Live'']\<rparr>"

definition retitled_video :: video where
  "retitled_video =
     \<lparr>service = ''youtube'', videoId = ''abc'', attrs = [''title'' \<mapsto> JStr ''Remix'']\<rparr>"

definition mime_video :: video where
  "mime_video =
     \<lparr>service = ''youtube'', videoId = ''abc'',
      attrs = [''title'' \<mapsto> JStr ''Song'', ''description'' \<mapsto> JStr ''Live'',
               ''mime'' \<mapsto> JStr ''video/x-unsupported'']\<rparr>"

definition mp4_video :: video where
  "mp4_video =
     \<lparr>service = ''youtube'', videoId = ''abc'',
      attrs = [''title'' \<mapsto> JStr ''Song'', ''mime'' \<mapsto> JStr ''video/mp4'']\<rparr>"

definition only_mp4 :: "jsval \<Rightarrow> bool" where
  "only_mp4 mime = (mime = JStr ''video/mp4'')"

definition yt_adapter :: "(string \<Rightarrow> string list \<Rightarrow> exn + fetched) \<Rightarrow> adapter" where
  "yt_adapter fetch =
     \<lparr>serviceId = ''youtube'',
      canHandleLink = (\<lambda>url. True),
      isCollectionURL = (\<lambda>url. url = ''https://youtube.com/playlist''),
      getVideoId = (\<lambda>url. ''abc''),
      resolveURL = (\<lambda>url. Inr [complete_video]),
      fetchVideoInfo = fetch,
      adapter_searchVideos = (\<lambda>query. Inr [partial_video])\<rparr>"

text \<open>A provider that answers every request the same way: each requested field, fetched.\<close>

definition stable_fetch :: "string \<Rightarrow> string list \<Rightarrow> exn + fetched" where
  "stable_fetch i fs =
     Inr (Record \<lparr>service = ''youtube'', videoId = i,
                  attrs = (\<lambda>f. if f \<in> set fs then Some (JStr ''fetched'') else None)\<rparr>)"

definition ex_env :: "adapter list \<Rightarrow> env" where
  "ex_env as =
     \<lparr>adapters = as,
      url_host_present = (\<lambda>str. take 8 str = ''https://''),
      storage_getVideoInfoFields = yt_schema,
      storage_read_error = (\<lambda>svc vid. None)\<rparr>"

definition failing_env :: "adapter list \<Rightarrow> env" where
  "failing_env as =
     \<lparr>adapters = as,
      url_host_present = (\<lambda>str. take 8 str = ''https://''),
      storage_getVideoInfoFields = yt_schema,
      storage_read_error = (\<lambda>svc vid. Some (OtherError ''connection refused''))\<rparr>"

definition empty_state :: state where
  "empty_state = \<lparr>cache = Map.empty, trace = []\<rparr>"

definition state_caching :: "video \<Rightarrow> state" where
  "state_caching v = \<lparr>cache = [(service v, videoId v) \<mapsto> v], trace = []\<rparr>"

lemmas ex_defs = yt_schema_def yt_adapter_def ex_env_def failing_env_def bare_video_def
  partial_video_def complete_video_def retitled_video_def mime_video_def only_mp4_def
  stable_fetch_def empty_state_def state_caching_def

lemmas model_defs = getVideoInfo_def getCachedVideo_def storage_getVideoInfo_def Video_def
  hasOwnProperty_def plain_call_receiver_def getServiceAdapter_def strict_equals_zero_def
  getVideoInfo_catch_def emit_def storage_updateVideoInfo_def upsert_def Let_def

section \<open>Properties\<close>

subsection \<open>Auxiliary facts\<close>

lemma getCachedVideo_missingInfo:
  assumes "getCachedVideo this E st svc vid = Inr (c, m)"
  shows "m = filter (\<lambda>p. \<not> hasOwnProperty c p) (storage_getVideoInfoFields E (service c))"
  using assms
  by (auto simp: getCachedVideo_def Let_def split: sum.splits option.splits if_splits)

text \<open>
  The test \<open>missingInfo.length < storage.getVideoInfoFields(...).length\<close> of the
  \<open>catch\<close> block holds exactly when the cached record has one of the schema's fields.
\<close>

lemma missing_shorter_iff:
  "length (filter (\<lambda>p. \<not> hasOwnProperty c p) fs) < length fs
     \<longleftrightarrow> (\<exists>p\<in>set fs. hasOwnProperty c p)"
proof
  assume "length (filter (\<lambda>p. \<not> hasOwnProperty c p) fs) < length fs"
  then have "filter (\<lambda>p. \<not> hasOwnProperty c p) fs \<noteq> fs" by auto
  then show "\<exists>p\<in>set fs. hasOwnProperty c p" by (auto simp: filter_id_conv)
next
  assume "\<exists>p\<in>set fs. hasOwnProperty c p"
  then show "length (filter (\<lambda>p. \<not> hasOwnProperty c p) fs) < length fs"
    by (auto intro: length_filter_less)
qed

text \<open>
  Whenever \<open>getVideoInfo\<close> returns a record, it has called \<open>fetchVideoInfo\<close> on the
  adapter first: the branch that returns without a call is guarded by a test that is never
  true.
\<close>

lemma getVideoInfo_record_costs_adapter_call:
  assumes "getVideoInfo E st svc vid = (Inr v, st')"
  shows "\<exists>a i m rest. getServiceAdapter E svc = Some a
           \<and> trace st' = trace st @ AdapterFetchVideoInfo (serviceId a) i m # rest"
  using assms
  by (auto simp: getVideoInfo_def strict_equals_zero_def getVideoInfo_catch_def Let_def emit_def
        storage_updateVideoInfo_def
      split: if_splits option.splits sum.splits prod.splits)

text \<open>
  A cached record whose \<open>mime\<close> is truthy never gets past \<open>getCachedVideo\<close>, supported
  or not: the call of \<open>this.isSupportedMimeType\<close> raises \<open>TypeError\<close>.
\<close>

lemma getVideoInfo_truthy_mime:
  assumes "storage_getVideoInfo E st svc vid = Inr v"
    and "attrs v ''mime'' = Some mime"
    and "truthy mime"
  shows "getVideoInfo E st svc vid = (Inl TypeError, st)"
  using assms
  by (simp add: getVideoInfo_def getCachedVideo_def Video_def plain_call_receiver_def Let_def)

text \<open>
  When the call of \<open>fetchVideoInfo\<close> itself throws \<open>OutOfQuotaException\<close> and the cached
  record has none of the schema's fields, the \<open>catch\<close> block throws the error again.
\<close>

lemma getVideoInfo_quota_thrown_propagates:
  assumes cached: "getCachedVideo plain_call_receiver E st svc vid = Inr (c, m)"
    and adapter: "getServiceAdapter E svc = Some a"
    and thrown: "fetchVideoInfo a (videoId c) m = Inl OutOfQuotaException"
    and none: "list_all (\<lambda>p. \<not> hasOwnProperty c p) (storage_getVideoInfoFields E (service c))"
  shows "fst (getVideoInfo E st svc vid) = Inl OutOfQuotaException"
proof -
  have m: "m = filter (\<lambda>p. \<not> hasOwnProperty c p) (storage_getVideoInfoFields E (service c))"
    using cached by (rule getCachedVideo_missingInfo)
  have "m = storage_getVideoInfoFields E (service c)"
    unfolding m using none by (simp add: list_all_iff)
  with cached adapter thrown show ?thesis
    by (simp add: getVideoInfo_def strict_equals_zero_def getVideoInfo_catch_def Let_def)
qed

text \<open>
  When the call of \<open>fetchVideoInfo\<close> itself throws \<open>OutOfQuotaException\<close> and the cached
  record has passed \<open>getCachedVideo\<close> with one of the schema's fields, the \<open>catch\<close> block
  returns the cached record.
\<close>

lemma getVideoInfo_quota_thrown_degrades:
  assumes cached: "getCachedVideo plain_call_receiver E st svc vid = Inr (c, m)"
    and adapter: "getServiceAdapter E svc = Some a"
    and thrown: "fetchVideoInfo a (videoId c) m = Inl OutOfQuotaException"
    and some: "\<exists>p\<in>set (storage_getVideoInfoFields E (service c)). hasOwnProperty c p"
  shows "fst (getVideoInfo E st svc vid) = Inr c"
proof -
  have m: "m = filter (\<lambda>p. \<not> hasOwnProperty c p) (storage_getVideoInfoFields E (service c))"
    using cached by (rule getCachedVideo_missingInfo)
  have shorter: "length m < length (storage_getVideoInfoFields E (service c))"
    unfolding m using some by (simp add: missing_shorter_iff)
  with cached adapter thrown show ?thesis
    by (simp add: getVideoInfo_def strict_equals_zero_def getVideoInfo_catch_def Let_def)
qed

text \<open>What the \<open>try\<close> block returns is the merge of the cached record and the call's result.\<close>

lemma getVideoInfo_merges_fetched:
  assumes "getCachedVideo plain_call_receiver E st svc vid = Inr (c, m)"
    and "getServiceAdapter E svc = Some a"
    and "fetchVideoInfo a (videoId c) m = Inr f"
  shows "fst (getVideoInfo E st svc vid) = Inr (Video_merge c f)"
  using assms by (simp add: getVideoInfo_def strict_equals_zero_def Let_def)


subsection \<open>The cache-hit fast path\<close>

text \<open>
  C1. The claim: when the cached record has every field of the schema, \<open>getVideoInfo\<close>
  returns it unchanged and calls no adapter. The code guards that branch with
  \<open>missingInfo === 0\<close>, which is false for every array, so the branch is never taken.
  With \<open>title\<close> and \<open>description\<close> both cached, \<open>getVideoInfo\<close> still calls
  \<open>fetchVideoInfo\<close>, with an empty field list, and then writes the cache.
\<close>

theorem getVideoInfo_complete_cache_calls_adapter:
  "getVideoInfo (ex_env [yt_adapter (\<lambda>i fs. Inr (Record bare_video))])
     (state_caching complete_video) ''youtube'' ''abc''
   = (Inr complete_video,
      \<lparr>cache = [(''youtube'', ''abc'') \<mapsto> complete_video],
       trace = [AdapterFetchVideoInfo ''youtube'' ''abc'' [],
                StorageUpdateVideoInfo complete_video]\<rparr>)"
  by (simp add: model_defs ex_defs)

subsection \<open>Quota exhaustion\<close>

text \<open>
  C2. The claim: whenever the cached record has at least one field of the schema and
  \<open>fetchVideoInfo\<close> fails with the quota signal, \<open>getVideoInfo\<close> returns the stale cached
  record and raises no error. A cached record that carries a title and the mime
  \<open>video/mp4\<close> is such a record, yet \<open>getVideoInfo\<close> fails on it with \<open>TypeError\<close>
  and never reaches the fetch: \<open>getCachedVideo\<close> calls \<open>this.isSupportedMimeType\<close>, which
  does not exist in a plain call. This holds whether the adapter would throw the quota
  error or reject its promise with it.
\<close>

theorem getVideoInfo_quota_cached_mime_TypeError:
  "getVideoInfo (ex_env [yt_adapter (\<lambda>i fs. Inl OutOfQuotaException)])
     (state_caching mp4_video) ''youtube'' ''abc''
   = (Inl TypeError, state_caching mp4_video)
   \<and> getVideoInfo (ex_env [yt_adapter (\<lambda>i fs. Inr (Promise (Inl OutOfQuotaException)))])
       (state_caching mp4_video) ''youtube'' ''abc''
     = (Inl TypeError, state_caching mp4_video)
   \<and> attrs mp4_video ''title'' = Some (JStr ''Song'')
   \<and> only_mp4 (JStr ''video/mp4'')"
  by (simp add: model_defs ex_defs mp4_video_def)

text \<open>
  C3. The claim: when the cached record has none of the schema's fields and
  \<open>fetchVideoInfo\<close> fails with the quota signal, \<open>getVideoInfo\<close> propagates the error and
  returns no record. The \<open>catch\<close> block does so for an error the call throws, but the
  call is not awaited: an adapter that reports the exhausted quota by rejecting the
  promise it returned never reaches the \<open>catch\<close>. \<open>getVideoInfo\<close> then merges the promise
  over the empty cached record, writes the result to the cache and returns it.
\<close>

theorem getVideoInfo_quota_rejection_not_propagated:
  "getVideoInfo (ex_env [yt_adapter (\<lambda>i fs. Inr (Promise (Inl OutOfQuotaException)))])
     empty_state ''youtube'' ''abc''
   = (Inr bare_video,
      \<lparr>cache = [(''youtube'', ''abc'') \<mapsto> bare_video],
       trace = [AdapterFetchVideoInfo ''youtube'' ''abc'' [''title'', ''description''],
                StorageUpdateVideoInfo bare_video]\<rparr>)"
  by (simp add: model_defs ex_defs)

text \<open>
  C10. When \<open>getVideoInfo\<close> takes the degradation branch (the call of \<open>fetchVideoInfo\<close>
  throws \<open>OutOfQuotaException\<close> and fewer fields are missing than the schema has), it
  returns the cached record, the only effect is the adapter call, the cache store is as it
  was and no write has been issued.
\<close>

theorem getVideoInfo_degradation_no_write:
  assumes cached: "getCachedVideo plain_call_receiver E st svc vid = Inr (c, m)"
    and adapter: "getServiceAdapter E svc = Some a"
    and thrown: "fetchVideoInfo a (videoId c) m = Inl OutOfQuotaException"
    and shorter: "length m < length (storage_getVideoInfoFields E (service c))"
  shows "getVideoInfo E st svc vid
           = (Inr c, emit (AdapterFetchVideoInfo (serviceId a) (videoId c) m) st)
     \<and> cache (snd (getVideoInfo E st svc vid)) = cache st
     \<and> filter is_cache_write (trace (snd (getVideoInfo E st svc vid)))
         = filter is_cache_write (trace st)"
  using assms
  by (simp add: getVideoInfo_def strict_equals_zero_def getVideoInfo_catch_def Let_def emit_def)

theorem getVideoInfo_degradation_no_write_witness:
  "cache (snd (getVideoInfo (ex_env [yt_adapter (\<lambda>i fs. Inl OutOfQuotaException)])
            (state_caching partial_video) ''youtube'' ''abc''))
     = cache (state_caching partial_video)
   \<and> filter is_cache_write
       (trace (snd (getVideoInfo (ex_env [yt_adapter (\<lambda>i fs. Inl OutOfQuotaException)])
                 (state_caching partial_video) ''youtube'' ''abc'')))
     = filter is_cache_write (trace (state_caching partial_video))"
proof -
  let ?a = "yt_adapter (\<lambda>i fs. Inl OutOfQuotaException)"
  have cached: "getCachedVideo plain_call_receiver (ex_env [?a]) (state_caching partial_video)
      ''youtube'' ''abc'' = Inr (partial_video, [''description''])"
    by (simp add: model_defs ex_defs)
  have adapter: "getServiceAdapter (ex_env [?a]) ''youtube'' = Some ?a"
    by (simp add: getServiceAdapter_def ex_defs)
  have thrown: "fetchVideoInfo ?a (videoId partial_video) [''description'']
      = Inl OutOfQuotaException"
    by (simp add: ex_defs)
  have shorter: "length [''description'']
      < length (storage_getVideoInfoFields (ex_env [?a]) (service partial_video))"
    by (simp add: ex_defs)
  from getVideoInfo_degradation_no_write [OF cached adapter thrown shorter]
  show ?thesis by blast
qed

subsection \<open>The mime check\<close>

text \<open>
  C4. The claim: a cached record whose \<open>mime\<close> is not supported makes \<open>getVideoInfo\<close>
  fail with the unsupported-mime-type error. The code tests the mime through
  \<open>this.isSupportedMimeType\<close>, and \<open>getCachedVideo\<close> is called as a plain function, so
  that method does not exist: the call raises \<open>TypeError\<close> before
  \<open>UnsupportedMimeTypeException\<close> can be thrown. Only with a receiver that has the method
  does \<open>getCachedVideo\<close> raise the intended error.
\<close>

theorem getVideoInfo_unsupported_mime_TypeError:
  "getVideoInfo (ex_env [yt_adapter (\<lambda>i fs. Inr (Record bare_video))])
     (state_caching mime_video) ''youtube'' ''abc''
   = (Inl TypeError, state_caching mime_video)
   \<and> getCachedVideo (Some only_mp4) (ex_env [yt_adapter (\<lambda>i fs. Inr (Record bare_video))])
       (state_caching mime_video) ''youtube'' ''abc''
     = Inl (UnsupportedMimeTypeException (JStr ''video/x-unsupported''))"
  by (simp add: model_defs ex_defs)

subsection \<open>Storage errors\<close>

text \<open>
  C9. When the storage read of \<open>(service, videoId)\<close> raises an error, \<open>getVideoInfo\<close>
  fails with that same error and the state is untouched: no adapter has been called and no
  cache write issued.
\<close>

theorem getVideoInfo_storage_error_propagates:
  assumes "storage_read_error E svc vid = Some e"
  shows "getVideoInfo E st svc vid = (Inl e, st)"
  using assms
  by (simp add: getVideoInfo_def getCachedVideo_def storage_getVideoInfo_def Let_def)

theorem getVideoInfo_storage_error_propagates_witness:
  "getVideoInfo (failing_env [yt_adapter stable_fetch]) (state_caching partial_video)
     ''youtube'' ''abc''
   = (Inl (OtherError ''connection refused''), state_caching partial_video)"
proof -
  have "storage_read_error (failing_env [yt_adapter stable_fetch]) ''youtube'' ''abc''
      = Some (OtherError ''connection refused'')"
    by (simp add: failing_env_def)
  then show ?thesis by (rule getVideoInfo_storage_error_propagates)
qed


subsection \<open>Missing adapters\<close>

text \<open>
  C5. The claim: when the adapter lookup finds nothing, the query resolver fails with a
  typed unresolvable-reference error and does not dereference the missing adapter. The
  module has no such error and no check of the lookup's result: with no adapter
  configured, both a URL and a free-text query fail with the \<open>TypeError\<close> of the
  dereference.
\<close>

theorem resolveVideoQuery_missing_adapter_counterexample:
  "fst (resolveVideoQuery (ex_env []) empty_state ''https://example.com/watch?v=abc'' ''youtube'')
     = Inl TypeError
   \<and> fst (resolveVideoQuery (ex_env []) empty_state ''some search text'' ''youtube'')
     = Inl TypeError"
  by (simp add: resolveVideoQuery_def isURL_def getServiceAdapterForURL_def searchVideos_def
        getServiceAdapter_def ex_defs)

text \<open>
  C5, as amended. When the adapter lookup finds nothing (a URL that no adapter's
  \<open>canHandleLink\<close> accepts, or a free-text query with a \<open>searchService\<close> that is no
  adapter's \<open>serviceId\<close>), \<open>resolveVideoQuery\<close> fails with \<open>TypeError\<close> and leaves the
  state untouched; so does \<open>searchVideos\<close> for a service that has no adapter.
\<close>

theorem resolveVideoQuery_missing_adapter_TypeError:
  "((isURL E query \<and> getServiceAdapterForURL E query = None)
      \<or> (\<not> isURL E query \<and> getServiceAdapter E searchService = None)
     \<longrightarrow> resolveVideoQuery E st query searchService = (Inl TypeError, st))
   \<and> (getServiceAdapter E searchService = None
     \<longrightarrow> searchVideos E st searchService query = (Inl TypeError, st))"
  by (auto simp: resolveVideoQuery_def searchVideos_def)

theorem resolveVideoQuery_missing_adapter_TypeError_witness:
  "resolveVideoQuery (ex_env []) empty_state ''https://example.com/watch?v=abc'' ''youtube''
     = (Inl TypeError, empty_state)
   \<and> resolveVideoQuery (ex_env []) empty_state ''some search text'' ''youtube''
     = (Inl TypeError, empty_state)
   \<and> searchVideos (ex_env []) empty_state ''youtube'' ''some search text''
     = (Inl TypeError, empty_state)"
proof -
  have url: "isURL (ex_env []) ''https://example.com/watch?v=abc''"
    by (simp add: isURL_def ex_defs)
  have plain: "\<not> isURL (ex_env []) ''some search text''"
    by (simp add: isURL_def ex_defs)
  have none_url: "getServiceAdapterForURL (ex_env []) ''https://example.com/watch?v=abc'' = None"
    by (simp add: getServiceAdapterForURL_def ex_defs)
  have none_svc: "getServiceAdapter (ex_env []) ''youtube'' = None"
    by (simp add: getServiceAdapter_def ex_defs)
  from resolveVideoQuery_missing_adapter_TypeError
         [of "ex_env []" "''https://example.com/watch?v=abc''" "''youtube''" empty_state]
    url none_url
  have a: "resolveVideoQuery (ex_env []) empty_state ''https://example.com/watch?v=abc''
      ''youtube'' = (Inl TypeError, empty_state)"
    by blast
  from resolveVideoQuery_missing_adapter_TypeError
         [of "ex_env []" "''some search text''" "''youtube''" empty_state]
    plain none_svc
  have b: "resolveVideoQuery (ex_env []) empty_state ''some search text'' ''youtube''
      = (Inl TypeError, empty_state)"
    and c: "searchVideos (ex_env []) empty_state ''youtube'' ''some search text''
      = (Inl TypeError, empty_state)"
    by blast+
  from a b c show ?thesis by simp
qed

subsection \<open>Merging\<close>

text \<open>
  C6. Merging a fetched record over a cached record of the same \<open>(service, id)\<close> is
  right-biased: the key is kept, a field the fetched record defines carries the fetched
  value, a field it does not define carries the cached value, and the fields of the result
  are those of the cached record and those of the fetched record, no others.
\<close>

theorem Video_merge_right_biased:
  assumes "service b = service a" and "videoId b = videoId a"
  shows "service (Video_merge a (Record b)) = service a
     \<and> videoId (Video_merge a (Record b)) = videoId a
     \<and> (\<forall>f v. attrs b f = Some v \<longrightarrow> attrs (Video_merge a (Record b)) f = Some v)
     \<and> (\<forall>f. attrs b f = None \<longrightarrow> attrs (Video_merge a (Record b)) f = attrs a f)
     \<and> dom (attrs (Video_merge a (Record b))) = dom (attrs a) \<union> dom (attrs b)"
  using assms by (auto simp: map_add_def split: option.splits)

theorem Video_merge_right_biased_witness:
  "service (Video_merge complete_video (Record retitled_video)) = ''youtube''
   \<and> videoId (Video_merge complete_video (Record retitled_video)) = ''abc''
   \<and> attrs (Video_merge complete_video (Record retitled_video)) ''title'' = Some (JStr ''Remix'')
   \<and> attrs (Video_merge complete_video (Record retitled_video)) ''description''
       = Some (JStr ''Live'')
   \<and> dom (attrs (Video_merge complete_video (Record retitled_video)))
       = dom (attrs complete_video)"
proof -
  have key: "service retitled_video = service complete_video"
      "videoId retitled_video = videoId complete_video"
    by (simp_all add: ex_defs)
  have fetched: "attrs retitled_video ''title'' = Some (JStr ''Remix'')"
      "attrs retitled_video ''description'' = None"
    by (simp_all add: ex_defs)
  have cached: "service complete_video = ''youtube''" "videoId complete_video = ''abc''"
      "attrs complete_video ''description'' = Some (JStr ''Live'')"
    by (simp_all add: ex_defs)
  have "dom (attrs retitled_video) \<subseteq> dom (attrs complete_video)"
    by (simp add: ex_defs)
  then have doms: "dom (attrs complete_video) \<union> dom (attrs retitled_video) = dom (attrs complete_video)"
    by (rule Un_absorb2)
  note merged = Video_merge_right_biased [OF key]
  from merged cached(1) have a: "service (Video_merge complete_video (Record retitled_video)) = ''youtube''"
    by simp
  from merged cached(2) have b: "videoId (Video_merge complete_video (Record retitled_video)) = ''abc''"
    by simp
  from merged fetched(1)
  have c: "attrs (Video_merge complete_video (Record retitled_video)) ''title'' = Some (JStr ''Remix'')"
    by blast
  from merged fetched(2) cached(3)
  have d: "attrs (Video_merge complete_video (Record retitled_video)) ''description'' = Some (JStr ''Live'')"
    by simp
  from merged doms
  have e: "dom (attrs (Video_merge complete_video (Record retitled_video))) = dom (attrs complete_video)"
    by simp
  from a b c d e show ?thesis by blast
qed


subsection \<open>Write-back\<close>

text \<open>
  C7. The claim: in every branch of \<open>resolveVideoQuery\<close>, each record obtained is written
  to the cache store before it is returned. In the single-item branch, \<open>getVideoInfo\<close>
  returns the stale cached record when the call of \<open>fetchVideoInfo\<close> throws
  \<open>OutOfQuotaException\<close>, and issues no write for it.
\<close>

theorem resolveVideoQuery_degraded_not_written_counterexample:
  "resolveVideoQuery (ex_env [yt_adapter (\<lambda>i fs. Inl OutOfQuotaException)])
     (state_caching partial_video) ''https://youtu.be/abc'' ''youtube''
   = (Inr (Single partial_video),
      \<lparr>cache = [(''youtube'', ''abc'') \<mapsto> partial_video],
       trace = [AdapterFetchVideoInfo ''youtube'' ''abc'' [''description'']]\<rparr>)
   \<and> filter is_cache_write
       (trace (snd (resolveVideoQuery (ex_env [yt_adapter (\<lambda>i fs. Inl OutOfQuotaException)])
          (state_caching partial_video) ''https://youtu.be/abc'' ''youtube'')))
     = []"
  by (simp add: resolveVideoQuery_def isURL_def getServiceAdapterForURL_def model_defs ex_defs)

text \<open>
  C7, as amended. Whatever \<open>resolveVideoQuery\<close> returns has been written to the cache store
  by the last effect before the return (\<open>updateManyVideoInfo\<close> of the batch in the
  collection and search branches, \<open>updateVideoInfo\<close> of the record in the single-item
  branch), except in one case: the single-item branch returns the stale cached record after
  the call of \<open>fetchVideoInfo\<close> threw \<open>OutOfQuotaException\<close>, and then the cache store is
  as it was and no write has been issued.
\<close>

theorem resolveVideoQuery_written_back_unless_degraded:
  assumes "resolveVideoQuery E st query searchService = (Inr r, st')"
  shows "written_back r st'
     \<or> (\<exists>a b c m. isURL E query \<and> getServiceAdapterForURL E query = Some a
           \<and> \<not> isCollectionURL a query
           \<and> getServiceAdapter E (serviceId a) = Some b
           \<and> getCachedVideo plain_call_receiver E st (serviceId a) (getVideoId a query)
               = Inr (c, m)
           \<and> fetchVideoInfo b (videoId c) m = Inl OutOfQuotaException
           \<and> r = Single c \<and> cache st' = cache st
           \<and> filter is_cache_write (trace st') = filter is_cache_write (trace st))"
  using assms
  by (auto simp: resolveVideoQuery_def searchVideos_def getVideoInfo_def strict_equals_zero_def
        getVideoInfo_catch_def Let_def written_back_def emit_def storage_updateVideoInfo_def
        storage_updateManyVideoInfo_def
      split: if_splits option.splits sum.splits prod.splits)

theorem resolveVideoQuery_written_back_unless_degraded_witness:
  "written_back (Batch [complete_video])
     (snd (resolveVideoQuery (ex_env [yt_adapter stable_fetch]) empty_state
             ''https://youtube.com/playlist'' ''youtube''))"
proof -
  let ?run = "resolveVideoQuery (ex_env [yt_adapter stable_fetch]) empty_state
                ''https://youtube.com/playlist'' ''youtube''"
  have "fst ?run = Inr (Batch [complete_video])"
    by (simp add: resolveVideoQuery_def isURL_def getServiceAdapterForURL_def yt_adapter_def
          ex_env_def Let_def)
  then have run: "?run = (Inr (Batch [complete_video]), snd ?run)"
    by (metis prod.collapse)
  from resolveVideoQuery_written_back_unless_degraded [OF run]
  show ?thesis by blast
qed

subsection \<open>Resolving the same key twice\<close>

text \<open>
  C8. The claim: resolving the same key twice against a stable provider gives the same
  record twice, and the second call is a pure cache hit with no adapter call. The first
  call fills the cache, yet the second call still calls \<open>fetchVideoInfo\<close>, now with an
  empty field list: the cache-hit branch is guarded by \<open>missingInfo === 0\<close> and is never
  taken.
\<close>

theorem getVideoInfo_second_call_fetches_again:
  "filter is_adapter_call
     (trace (snd (getVideoInfo (ex_env [yt_adapter stable_fetch])
        (snd (getVideoInfo (ex_env [yt_adapter stable_fetch]) empty_state ''youtube'' ''abc''))
        ''youtube'' ''abc'')))
   = [AdapterFetchVideoInfo ''youtube'' ''abc'' [''title'', ''description''],
      AdapterFetchVideoInfo ''youtube'' ''abc'' []]"
  by (simp add: model_defs ex_defs)

end
